theory Spec2Isabelle
  imports Main
begin

section \<open>The singleton decorator of \<^verbatim>\<open>simple_singleton/singleton.py\<close>\<close>

text \<open>
  The module offers two functions: \<^verbatim>\<open>singleton\<close>, a class decorator that replaces
  the \<^verbatim>\<open>__new__\<close> (and, unless reassignment is allowed, the \<^verbatim>\<open>__init__\<close>) of a class
  by closures over three cells \<^verbatim>\<open>_instance\<close>, \<^verbatim>\<open>_is_initialized\<close> and \<^verbatim>\<open>_lock\<close>, and
  \<^verbatim>\<open>is_singleton\<close>, which reads the marker attribute \<^verbatim>\<open>__singleton_flag__\<close>.

  The embedding keeps the program's state explicit: a table of classes (each with
  its name, its method resolution order and its own attribute entries), a heap of
  objects, and the mutable cells of every application of the decorator. Function
  objects are values: the closure installed by one application of the decorator is
  a constructor carrying what that closure captured and never reassigns (the cell
  index, the options, \<^verbatim>\<open>original_cls\<close>, \<^verbatim>\<open>_original_new\<close> or \<^verbatim>\<open>_original_init\<close>).
\<close>

subsection \<open>Values, classes, objects\<close>

datatype pyval = VNone | VInt int | VStr string | VFun string | VClass nat | VObj nat

type_synonym fields = "string \<rightharpoonup> pyval"

datatype error = TypeError string

record config =
  thread_safe :: bool
  allow_subclass :: bool
  allow_reassignment :: bool

text \<open>
  What a class attribute \<^verbatim>\<open>__new__\<close> can hold: the builtin \<^verbatim>\<open>object.__new__\<close>, or
  \<^verbatim>\<open>MethodType(__new__, original_cls)\<close> of one decorator application, given by its
  cell index \<open>k\<close>, its options, \<^verbatim>\<open>original_cls\<close> and the captured \<^verbatim>\<open>_original_new\<close>.
  Class bodies define no \<^verbatim>\<open>__new__\<close> of their own here: only the decorator installs one.
\<close>

datatype new_impl =
    ObjectNew
  | SingletonNew nat config nat new_impl

text \<open>
  What \<^verbatim>\<open>__init__\<close> can hold: \<^verbatim>\<open>object.__init__\<close>, an initialiser written by the
  user (a function from the call's arguments and the instance's attributes to
  the new attributes, or to the exception it raises, for instance on arguments
  that do not fit its signature), or the gate \<^verbatim>\<open>__init__\<close> of a decorator
  application with its captured \<^verbatim>\<open>_original_init\<close>.
\<close>

datatype init_impl =
    ObjectInit
  | UserInit "pyval list \<Rightarrow> fields \<Rightarrow> error + fields"
  | SingletonInit nat init_impl

record pyclass =
  cname :: string
  cmro :: "nat list"
  c_new :: "new_impl option"
  c_init :: "init_impl option"
  c_flag :: "string option"

record pyobj =
  ocls :: nat
  ofields :: fields

record pystate =
  classes :: "pyclass list"
  heap :: "pyobj list"
  instance_cell :: "nat \<Rightarrow> nat option"
  initialized_cell :: "nat \<Rightarrow> bool"
  next_cell :: nat

definition empty_state :: pystate where
  "empty_state =
     \<lparr>classes = [], heap = [], instance_cell = (\<lambda>_. None),
      initialized_cell = (\<lambda>_. False), next_cell = 0\<rparr>"

subsection \<open>The host language: attribute lookup, class statements, calling a class\<close>

text \<open>
  \<^verbatim>\<open>getattr\<close> on a class walks its \<^verbatim>\<open>__mro__\<close> and returns the first own entry.
  The builtin \<^verbatim>\<open>object\<close> ends every chain; it is not an entry of the table, its
  \<^verbatim>\<open>__new__\<close> and \<^verbatim>\<open>__init__\<close> are the defaults below and it has no marker.
\<close>

fun lookup_attr :: "(pyclass \<Rightarrow> 'a option) \<Rightarrow> pyclass list \<Rightarrow> nat list \<Rightarrow> 'a option" where
  "lookup_attr sel cs [] = None"
| "lookup_attr sel cs (c # rest) =
     (case sel (cs ! c) of Some a \<Rightarrow> Some a | None \<Rightarrow> lookup_attr sel cs rest)"

definition class_name :: "pystate \<Rightarrow> nat \<Rightarrow> string" where
  "class_name st c = cname (classes st ! c)"

definition mro :: "pystate \<Rightarrow> nat \<Rightarrow> nat list" where
  "mro st c = cmro (classes st ! c)"

definition resolve_new :: "pystate \<Rightarrow> nat \<Rightarrow> new_impl" where
  "resolve_new st c =
     (case lookup_attr c_new (classes st) (mro st c) of None \<Rightarrow> ObjectNew | Some f \<Rightarrow> f)"

definition resolve_init :: "pystate \<Rightarrow> nat \<Rightarrow> init_impl" where
  "resolve_init st c =
     (case lookup_attr c_init (classes st) (mro st c) of None \<Rightarrow> ObjectInit | Some f \<Rightarrow> f)"

definition getattr_flag :: "pystate \<Rightarrow> nat \<Rightarrow> string option" where
  "getattr_flag st c = lookup_attr c_flag (classes st) (mro st c)"

text \<open>
  \<^verbatim>\<open>class name(base): ...\<close> with an optional \<^verbatim>\<open>__init__\<close> in its body. The new class
  gets the next index; its resolution order is itself followed by its base's.
\<close>

definition class_def :: "string \<Rightarrow> nat option \<Rightarrow> init_impl option \<Rightarrow> pystate \<Rightarrow> nat \<times> pystate" where
  "class_def name base own_init st =
     (let c = length (classes st);
          order = c # (case base of None \<Rightarrow> [] | Some b \<Rightarrow> mro st b)
      in (c, st\<lparr>classes := classes st @
                [\<lparr>cname = name, cmro = order, c_new = None, c_init = own_init, c_flag = None\<rparr>]\<rparr>))"

definition object_new :: "nat \<Rightarrow> pystate \<Rightarrow> (error + nat) \<times> pystate" where
  "object_new cls st =
     (Inr (length (heap st)), st\<lparr>heap := heap st @ [\<lparr>ocls = cls, ofields = Map.empty\<rparr>]\<rparr>)"

definition type_of :: "pystate \<Rightarrow> nat \<Rightarrow> nat" where
  "type_of st r = ocls (heap st ! r)"

definition isinstance :: "pystate \<Rightarrow> nat \<Rightarrow> nat \<Rightarrow> bool" where
  "isinstance st r c = (c \<in> set (mro st (type_of st r)))"

subsection \<open>The decorator's closures\<close>

text \<open>
  \<^verbatim>\<open>_check_subclass(cls)\<close>, lines 167 to 179: two raises and a \<^verbatim>\<open>return True\<close>.
\<close>

definition check_subclass :: "config \<Rightarrow> nat \<Rightarrow> nat \<Rightarrow> pystate \<Rightarrow> error + bool" where
  "check_subclass cfg original_cls cls st =
     (if \<not> allow_subclass cfg then
        Inl (TypeError (''Singleton class '' @ class_name st original_cls @ '' cannot be inherited''))
      else if getattr_flag st cls \<noteq> Some (class_name st cls) then
        Inl (TypeError (''Subclass '' @ class_name st cls @ '' must also be a singleton''))
      else Inr True)"

text \<open>
  \<^verbatim>\<open>_create_instance(cls, *args, **kwargs)\<close>, lines 181 to 185, calls
  \<^verbatim>\<open>_original_new(cls)\<close> when that is \<^verbatim>\<open>object.__new__\<close> and
  \<^verbatim>\<open>_original_new(cls, *args, **kwargs)\<close> otherwise.
\<close>

definition forwarded_args :: "new_impl \<Rightarrow> pyval list \<Rightarrow> pyval list" where
  "forwarded_args original_new args = (case original_new of ObjectNew \<Rightarrow> [] | _ \<Rightarrow> args)"

text \<open>
  \<^verbatim>\<open>_instance = _create_instance(...)\<close> followed by \<^verbatim>\<open>return _instance\<close>: when the
  call raises, the assignment does not happen and the cell keeps its content.
\<close>

definition store_instance :: "nat \<Rightarrow> (error + nat) \<times> pystate \<Rightarrow> (error + nat) \<times> pystate" where
  "store_instance k res =
     (case res of
        (Inl e, st') \<Rightarrow> (Inl e, st')
      | (Inr r, st') \<Rightarrow> (Inr r, st'\<lparr>instance_cell := (instance_cell st')(k \<mapsto> r)\<rparr>))"

text \<open>
  Calling a \<^verbatim>\<open>__new__\<close>. The bound method \<^verbatim>\<open>MethodType(__new__, original_cls)\<close>
  receives the calling class as \<^verbatim>\<open>args[0]\<close> (line 190); that class is the
  parameter \<open>cls\<close> here and \<open>args\<close> are the remaining positional arguments, which
  the closure only passes on. The second equation is lines 187 to 208; with the
  lock held by the one running thread, \<^verbatim>\<open>with _lock\<close> is the re-check it guards.
\<close>

fun call_new :: "new_impl \<Rightarrow> nat \<Rightarrow> pyval list \<Rightarrow> pystate \<Rightarrow> (error + nat) \<times> pystate" where
  "call_new ObjectNew cls args st = object_new cls st"
| "call_new (SingletonNew k cfg original_cls original_new) cls args st =
     (if cls \<noteq> original_cls then
        (case check_subclass cfg original_cls cls st of
           Inl e \<Rightarrow> (Inl e, st)
         | Inr _ \<Rightarrow>
             store_instance k (call_new original_new cls (forwarded_args original_new args) st))
      else
        (case instance_cell st k of
           None \<Rightarrow>
             (if thread_safe cfg then
                (case instance_cell st k of
                   None \<Rightarrow>
                     store_instance k
                       (call_new original_new cls (forwarded_args original_new args) st)
                 | Some r \<Rightarrow> (Inr r, st))
              else
                store_instance k (call_new original_new cls (forwarded_args original_new args) st))
         | Some r \<Rightarrow> (Inr r, st)))"

definition is_object_new :: "new_impl \<Rightarrow> bool" where
  "is_object_new f = (case f of ObjectNew \<Rightarrow> True | _ \<Rightarrow> False)"

definition is_object_init :: "init_impl \<Rightarrow> bool" where
  "is_object_init f = (case f of ObjectInit \<Rightarrow> True | _ \<Rightarrow> False)"

text \<open>
  Calling an \<^verbatim>\<open>__init__\<close> on the object \<open>self\<close>; \<open>Inl\<close> is the exception it raises.

  The host's \<^verbatim>\<open>object.__init__\<close> accepts no argument beyond \<open>self\<close> when the type
  of \<open>self\<close> has another \<^verbatim>\<open>__init__\<close> (which is the case once a gate is installed)
  or has kept \<^verbatim>\<open>object.__new__\<close>; it does nothing otherwise. A user's initialiser
  either raises or replaces the attributes. The third equation is the gate of
  lines 210 to 216: \<^verbatim>\<open>_is_initialized = True\<close> is reached only when
  \<^verbatim>\<open>_original_init\<close> has returned, so an exception leaves the gate open.
\<close>

fun call_init :: "init_impl \<Rightarrow> nat \<Rightarrow> pyval list \<Rightarrow> pystate \<Rightarrow> (error + unit) \<times> pystate" where
  "call_init ObjectInit self args st =
     (if args \<noteq> [] \<and> \<not> is_object_init (resolve_init st (type_of st self)) then
        (Inl (TypeError
           ''object.__init__() takes exactly one argument (the instance to initialize)''), st)
      else if args \<noteq> [] \<and> is_object_new (resolve_new st (type_of st self)) then
        (Inl (TypeError (class_name st (type_of st self) @ ''() takes no arguments'')), st)
      else (Inr (), st))"
| "call_init (UserInit f) self args st =
     (case f args (ofields (heap st ! self)) of
        Inl e \<Rightarrow> (Inl e, st)
      | Inr attrs \<Rightarrow>
          (Inr (), st\<lparr>heap := (heap st)[self := (heap st ! self)\<lparr>ofields := attrs\<rparr>]\<rparr>))"
| "call_init (SingletonInit k original_init) self args st =
     (if \<not> initialized_cell st k then
        (case call_init original_init self args st of
           (Inl e, st') \<Rightarrow> (Inl e, st')
         | (Inr u, st') \<Rightarrow>
             (Inr (), st'\<lparr>initialized_cell := (initialized_cell st')(k := True)\<rparr>))
      else (Inr (), st))"

text \<open>
  \<^verbatim>\<open>cls(*args)\<close>, the host's \<^verbatim>\<open>type.__call__\<close>: the resolved \<^verbatim>\<open>__new__\<close> runs with
  the calling class first; if what it returns is an instance of \<open>cls\<close>, the
  \<^verbatim>\<open>__init__\<close> of the returned object's own type runs on it with the same
  arguments, and an exception it raises is the outcome of the call.
\<close>

definition construct :: "nat \<Rightarrow> pyval list \<Rightarrow> pystate \<Rightarrow> (error + nat) \<times> pystate" where
  "construct cls args st =
     (case call_new (resolve_new st cls) cls args st of
        (Inl e, st') \<Rightarrow> (Inl e, st')
      | (Inr r, st') \<Rightarrow>
          (if isinstance st' r cls
           then (case call_init (resolve_init st' (type_of st' r)) r args st' of
                   (Inl e, st'') \<Rightarrow> (Inl e, st'')
                 | (Inr u, st'') \<Rightarrow> (Inr r, st''))
           else (Inr r, st')))"

subsection \<open>\<^verbatim>\<open>decorator\<close> and \<^verbatim>\<open>is_singleton\<close>\<close>

definition set_init :: "nat \<Rightarrow> init_impl \<Rightarrow> pystate \<Rightarrow> pystate" where
  "set_init c f st = st\<lparr>classes := (classes st)[c := (classes st ! c)\<lparr>c_init := Some f\<rparr>]\<rparr>"

definition set_new :: "nat \<Rightarrow> new_impl \<Rightarrow> pystate \<Rightarrow> pystate" where
  "set_new c f st = st\<lparr>classes := (classes st)[c := (classes st ! c)\<lparr>c_new := Some f\<rparr>]\<rparr>"

definition set_flag :: "nat \<Rightarrow> string \<Rightarrow> pystate \<Rightarrow> pystate" where
  "set_flag c s st = st\<lparr>classes := (classes st)[c := (classes st ! c)\<lparr>c_flag := Some s\<rparr>]\<rparr>"

text \<open>
  \<^verbatim>\<open>decorator(original_cls)\<close>, lines 160 to 228. The cells of this application are
  fresh (index \<open>next_cell\<close>): \<^verbatim>\<open>_instance = None\<close>, \<^verbatim>\<open>_is_initialized = False\<close>. The
  two originals are read from the class before anything is installed. A value
  that is not a class raises at line 218, before the three assignments.
\<close>

definition decorator :: "config \<Rightarrow> pyval \<Rightarrow> pystate \<Rightarrow> (error + nat) \<times> pystate" where
  "decorator cfg original_cls st =
     (case original_cls of
        VClass c \<Rightarrow>
          (let k = next_cell st;
               original_new = resolve_new st c;
               original_init = resolve_init st c;
               st0 = st\<lparr>instance_cell := (instance_cell st)(k := None),
                        initialized_cell := (initialized_cell st)(k := False),
                        next_cell := Suc k\<rparr>;
               st1 = (if \<not> allow_reassignment cfg
                      then set_init c (SingletonInit k original_init) st0 else st0);
               st2 = set_new c (SingletonNew k cfg c original_new) st1;
               st3 = set_flag c (class_name st2 c) st2
           in (Inr c, st3))
      | _ \<Rightarrow> (Inl (TypeError ''singleton decorator can only be applied to classes''), st))"

text \<open>The bare form \<^verbatim>\<open>@singleton\<close>: every option at its default \<^verbatim>\<open>False\<close>.\<close>

definition default_config :: config where
  "default_config = \<lparr>thread_safe = False, allow_subclass = False, allow_reassignment = False\<rparr>"

text \<open>\<^verbatim>\<open>is_singleton(cls)\<close>, lines 237 to 261.\<close>

definition is_type :: "pyval \<Rightarrow> bool" where
  "is_type v = (case v of VClass _ \<Rightarrow> True | _ \<Rightarrow> False)"

definition is_singleton_cls :: "pystate \<Rightarrow> pyval \<Rightarrow> bool" where
  "is_singleton_cls st v =
     (case v of
        VClass c \<Rightarrow>
          (case getattr_flag st c of
             None \<Rightarrow> False
           | Some flag \<Rightarrow> flag = class_name st c)
      | _ \<Rightarrow> False)"

subsection \<open>Sequences of calls and example programs\<close>

text \<open>
  Successive construction calls on one class, each on the state the previous one
  left; a caller that catches an exception goes on with the next call.
\<close>

fun construct_seq :: "nat \<Rightarrow> pyval list list \<Rightarrow> pystate \<Rightarrow> (error + nat) list \<times> pystate" where
  "construct_seq cls [] st = ([], st)"
| "construct_seq cls (args # rest) st =
     (case construct cls args st of
        (res, st') \<Rightarrow>
          (case construct_seq cls rest st' of (ress, st'') \<Rightarrow> (res # ress, st'')))"

definition subclassable :: config where
  "subclassable = \<lparr>thread_safe = False, allow_subclass = True, allow_reassignment = False\<rparr>"

definition reassignable :: config where
  "reassignable = \<lparr>thread_safe = False, allow_subclass = False, allow_reassignment = True\<rparr>"

text \<open>
  \<^verbatim>\<open>@singleton class Base\<close>, then \<^verbatim>\<open>class Plain(Base)\<close> and
  \<^verbatim>\<open>@singleton class Marked(Base)\<close>: classes 0, 1 and 2.
\<close>

definition sealed_state :: pystate where
  "sealed_state =
     (let s1 = snd (class_def ''Base'' None None empty_state);
          s2 = snd (decorator default_config (VClass 0) s1);
          s3 = snd (class_def ''Plain'' (Some 0) None s2);
          s4 = snd (class_def ''Marked'' (Some 0) None s3)
      in snd (decorator default_config (VClass 2) s4))"

text \<open>
  \<^verbatim>\<open>@singleton(allow_subclass=True) class Parent\<close>, \<^verbatim>\<open>@singleton class Child(Parent)\<close>
  and \<^verbatim>\<open>class Stray(Parent)\<close>: classes 0, 1 and 2, as in the tests
  \<^verbatim>\<open>test_instances_do_not_conflict_with_parent\<close> and \<^verbatim>\<open>test_subclass_not_singleton\<close>.
\<close>

definition family_state :: pystate where
  "family_state =
     (let s1 = snd (class_def ''Parent'' None None empty_state);
          s2 = snd (decorator subclassable (VClass 0) s1);
          s3 = snd (class_def ''Child'' (Some 0) None s2);
          s4 = snd (decorator default_config (VClass 1) s3)
      in snd (class_def ''Stray'' (Some 0) None s4))"

text \<open>
  \<^verbatim>\<open>@singleton(allow_subclass=True) class Node\<close>, an undecorated subclass that is
  also named \<^verbatim>\<open>Node\<close>, an undecorated subclass \<^verbatim>\<open>Leaf\<close>, and an unrelated
  undecorated class \<^verbatim>\<open>Other\<close>: classes 0 to 3.
\<close>

definition namesake_state :: pystate where
  "namesake_state =
     (let s1 = snd (class_def ''Node'' None None empty_state);
          s2 = snd (decorator subclassable (VClass 0) s1);
          s3 = snd (class_def ''Node'' (Some 0) None s2);
          s4 = snd (class_def ''Leaf'' (Some 0) None s3)
      in snd (class_def ''Other'' None None s4))"


text \<open>
  \<^verbatim>\<open>def __init__(self, value): self.value = value\<close>: one argument beyond \<open>self\<close>,
  any other number of arguments raises.
\<close>

definition set_value :: "pyval list \<Rightarrow> fields \<Rightarrow> error + fields" where
  "set_value args attrs =
     (case args of
        [] \<Rightarrow> Inl (TypeError ''__init__() missing 1 required positional argument: value'')
      | [v] \<Rightarrow> Inr (attrs(''value'' \<mapsto> v))
      | _ \<Rightarrow> Inl (TypeError ''__init__() takes 2 positional arguments but more were given''))"

text \<open>
  \<^verbatim>\<open>class Counter\<close> with that initialiser, decorated with the given options:
  class 0.
\<close>

definition counter_state :: "config \<Rightarrow> pystate" where
  "counter_state cfg =
     (let s1 = snd (class_def ''Counter'' None (Some (UserInit set_value)) empty_state)
      in snd (decorator cfg (VClass 0) s1))"

text \<open>
  \<^verbatim>\<open>@singleton(allow_subclass=True) class Parent\<close> with that initialiser, and a
  subclass \<^verbatim>\<open>Child(Parent)\<close> with an empty body, decorated with the given
  options: classes 0 and 1.
\<close>

definition heir_state :: "config \<Rightarrow> pystate" where
  "heir_state cfg =
     (let s1 = snd (class_def ''Parent'' None (Some (UserInit set_value)) empty_state);
          s2 = snd (decorator subclassable (VClass 0) s1);
          s3 = snd (class_def ''Child'' (Some 0) None s2)
      in snd (decorator cfg (VClass 1) s3))"

text \<open>\<^verbatim>\<open>@singleton class Bare: pass\<close>, a class without an initialiser: class 0.\<close>

definition bare_state :: pystate where
  "bare_state =
     (let s1 = snd (class_def ''Bare'' None None empty_state)
      in snd (decorator default_config (VClass 0) s1))"

text \<open>The attribute \<^verbatim>\<open>value\<close> of an object, \<open>None\<close> when it was never set.\<close>

definition value_of :: "pystate \<Rightarrow> nat \<Rightarrow> pyval option" where
  "value_of st r = ofields (heap st ! r) ''value''"

subsection \<open>Where a construction call arrives\<close>

text \<open>
  Following lines 192 to 207 without running them: the call of a \<^verbatim>\<open>__new__\<close> for
  the calling class \<open>cls\<close> arrives at the closure \<open>target\<close> when it is that closure,
  or when it is a closure that goes on to \<^verbatim>\<open>_create_instance\<close> (for another
  class its subclass check passes, for its own class its cell is empty) and its
  \<^verbatim>\<open>_original_new\<close> arrives there.
\<close>

fun reaches :: "new_impl \<Rightarrow> nat \<Rightarrow> pystate \<Rightarrow> new_impl \<Rightarrow> bool" where
  "reaches ObjectNew cls st target = False"
| "reaches (SingletonNew k cfg original_cls original_new) cls st target =
     (SingletonNew k cfg original_cls original_new = target \<or>
      (if cls \<noteq> original_cls
       then check_subclass cfg original_cls cls st = Inr True
       else instance_cell st k = None) \<and>
      reaches original_new cls st target)"

section \<open>Frame lemmas\<close>

text \<open>
  What the closures leave alone: \<^verbatim>\<open>__new__\<close> never touches the class table or an
  initialisation flag, \<^verbatim>\<open>__init__\<close> never touches the class table or an instance
  cell, and a call that raises leaves the whole state as it was.
\<close>

lemma store_instance_classes:
  "classes (snd (store_instance k res)) = classes (snd res)"
  by (simp add: store_instance_def split: prod.splits sum.splits)

lemma store_instance_initialized:
  "initialized_cell (snd (store_instance k res)) = initialized_cell (snd res)"
  by (simp add: store_instance_def split: prod.splits sum.splits)

lemma store_instance_cell:
  "store_instance k res = (Inr r, s) \<Longrightarrow> instance_cell s k = Some r"
  by (auto simp: store_instance_def split: prod.splits sum.splits)

lemma store_instance_failure:
  "store_instance k res = (Inl e, s) \<Longrightarrow> res = (Inl e, s)"
  by (auto simp: store_instance_def split: prod.splits sum.splits)

lemma call_new_classes: "classes (snd (call_new f cls args st)) = classes st"
  by (induction f cls args st rule: call_new.induct)
    (simp_all add: object_new_def store_instance_classes split: sum.splits option.splits)

lemma call_new_initialized:
  "initialized_cell (snd (call_new f cls args st)) = initialized_cell st"
  by (induction f cls args st rule: call_new.induct)
    (simp_all add: object_new_def store_instance_initialized split: sum.splits option.splits)

lemma call_new_failure:
  "call_new f cls args st = (Inl e, st') \<Longrightarrow> st' = st"
proof (induction f cls args st arbitrary: st' rule: call_new.induct)
  case (1 cls args st)
  then show ?case by (simp add: object_new_def)
next
  case (2 k cfg original_cls original_new cls args st)
  show ?case
  proof (cases "cls \<noteq> original_cls")
    case True
    show ?thesis
    proof (cases "check_subclass cfg original_cls cls st")
      case (Inl e')
      then show ?thesis using "2.prems" True by simp
    next
      case (Inr b)
      then have "store_instance k
          (call_new original_new cls (forwarded_args original_new args) st) = (Inl e, st')"
        using "2.prems" True by simp
      then have "call_new original_new cls (forwarded_args original_new args) st = (Inl e, st')"
        by (rule store_instance_failure)
      then show ?thesis using "2.IH"(1) True Inr by blast
    qed
  next
    case False
    show ?thesis
    proof (cases "instance_cell st k")
      case (Some r)
      then show ?thesis using "2.prems" False by simp
    next
      case None
      then have "store_instance k
          (call_new original_new cls (forwarded_args original_new args) st) = (Inl e, st')"
        using "2.prems" False by (simp split: if_splits)
      then have inner: "call_new original_new cls (forwarded_args original_new args) st = (Inl e, st')"
        by (rule store_instance_failure)
      show ?thesis
      proof (cases "thread_safe cfg")
        case True
        then show ?thesis using "2.IH"(2) False None inner by blast
      next
        case no: False
        then show ?thesis using "2.IH"(3) False None inner by blast
      qed
    qed
  qed
qed

lemma call_init_classes: "classes (snd (call_init f self args st)) = classes st"
  by (induction f self args st rule: call_init.induct)
    (auto split: sum.splits prod.splits if_splits)

lemma call_init_instance_cell:
  "instance_cell (snd (call_init f self args st)) = instance_cell st"
  by (induction f self args st rule: call_init.induct)
    (auto split: sum.splits prod.splits if_splits)

lemma call_init_failure:
  "call_init f self args st = (Inl e, st') \<Longrightarrow> st' = st"
  by (induction f self args st arbitrary: st' rule: call_init.induct)
    (auto split: sum.splits prod.splits if_splits)

text \<open>
  Line 195 in general: whenever the \<^verbatim>\<open>__new__\<close> of a decorated type is entered for
  another class and returns, the cell of the decorated type holds what it returned.
\<close>

lemma subclass_branch_stores:
  assumes "S \<noteq> T"
    and "call_new (SingletonNew k cfg T orig) S args st = (Inr r, st')"
  shows "instance_cell st' k = Some r"
proof (cases "check_subclass cfg T S st")
  case (Inl e)
  then show ?thesis using assms by simp
next
  case (Inr b)
  then have "store_instance k (call_new orig S (forwarded_args orig args) st) = (Inr r, st')"
    using assms by simp
  then show ?thesis by (rule store_instance_cell)
qed



section \<open>What the decorator installs, and which subclasses arrive at a closure\<close>

lemma decorator_classes:
  "classes (snd (decorator cfg (VClass T) st)) =
     (classes st)[T :=
        (if allow_reassignment cfg then classes st ! T
         else (classes st ! T)\<lparr>c_init := Some (SingletonInit (next_cell st) (resolve_init st T))\<rparr>)
        \<lparr>c_new := Some (SingletonNew (next_cell st) cfg T (resolve_new st T)),
         c_flag := Some (cname (classes st ! T))\<rparr>]"
  by (cases "T < length (classes st)")
    (simp_all add: decorator_def Let_def set_new_def set_init_def set_flag_def class_name_def
      list_update_beyond)

lemma decorator_mro: "mro (snd (decorator cfg (VClass T) st)) c = mro st c"
  by (cases "T < length (classes st)"; cases "c = T")
    (simp_all add: decorator_classes mro_def list_update_beyond)

lemma decorator_cell:
  "instance_cell (snd (decorator cfg (VClass T) st)) (next_cell st) = None"
  by (simp add: decorator_def Let_def set_new_def set_init_def set_flag_def)

lemma decorator_resolve_new:
  assumes "T < length (classes st)" and "mro st T = T # rest"
  shows "resolve_new (snd (decorator cfg (VClass T) st)) T =
           SingletonNew (next_cell st) cfg T (resolve_new st T)"
proof -
  let ?st' = "snd (decorator cfg (VClass T) st)"
  have "lookup_attr c_new (classes ?st') (mro ?st' T) =
          Some (SingletonNew (next_cell st) cfg T (resolve_new st T))"
    using assms by (simp add: decorator_mro decorator_classes)
  then show ?thesis
    by (simp add: resolve_new_def [of ?st'])
qed

text \<open>
  A class declared with a decorated class \<open>T\<close> as its base, \<open>T\<close> heading its own
  resolution order: its constructor is the \<^verbatim>\<open>__new__\<close> installed on \<open>T\<close>, so its
  construction arrives there; and once the new class is decorated itself, its
  own closure, with its fresh cell, leads there too.
\<close>

lemma subclass_resolves_to_parent:
  assumes "T < length (classes st)" and "mro st T = T # rest"
    and "c_new (classes st ! T) = Some w"
  shows "resolve_new (snd (class_def name (Some T) own_init st)) (length (classes st)) = w"
  using assms
  by (simp add: class_def_def Let_def resolve_new_def mro_def nth_append)

lemma undecorated_subclass_arrives:
  assumes "T < length (classes st)" and "mro st T = T # rest"
    and "c_new (classes st ! T) = Some (SingletonNew k cfg T orig)"
  shows "reaches (resolve_new (snd (class_def name (Some T) own_init st)) (length (classes st)))
           (length (classes st)) (snd (class_def name (Some T) own_init st))
           (SingletonNew k cfg T orig)"
  using subclass_resolves_to_parent [OF assms] by simp

lemma decorated_subclass_arrives:
  assumes "T < length (classes st)" and "mro st T = T # rest"
    and "c_new (classes st ! T) = Some (SingletonNew k cfg T orig)"
    and "st1 = snd (class_def name (Some T) own_init st)"
    and "st2 = snd (decorator cfg' (VClass (length (classes st))) st1)"
  shows "reaches (resolve_new st2 (length (classes st))) (length (classes st)) st2
           (SingletonNew k cfg T orig)"
proof -
  let ?S = "length (classes st)"
  have len: "?S < length (classes st1)"
    by (simp add: assms(4) class_def_def Let_def)
  have order: "mro st1 ?S = ?S # mro st T"
    by (simp add: assms(4) class_def_def Let_def mro_def)
  have parent: "resolve_new st1 ?S = SingletonNew k cfg T orig"
    unfolding assms(4) using assms(1-3) by (rule subclass_resolves_to_parent)
  have "resolve_new st2 ?S = SingletonNew (next_cell st1) cfg' ?S (SingletonNew k cfg T orig)"
    unfolding assms(5) using decorator_resolve_new [OF len order, of cfg'] parent by simp
  moreover have "instance_cell st2 (next_cell st1) = None"
    unfolding assms(5) by (rule decorator_cell)
  ultimately show ?thesis by simp
qed

text \<open>
  The host's \<^verbatim>\<open>object.__init__\<close> behind a gate: \<^verbatim>\<open>Bare(1)\<close> raises, with the new
  object already stored and the gate still open.
\<close>

lemma bare_class_excess_argument:
  "fst (construct 0 [VInt 1] bare_state) =
     Inl (TypeError
       ''object.__init__() takes exactly one argument (the instance to initialize)'') \<and>
   instance_cell (snd (construct 0 [VInt 1] bare_state)) 0 = Some 0 \<and>
   \<not> initialized_cell (snd (construct 0 [VInt 1] bare_state)) 0 \<and>
   fst (construct 0 [] bare_state) = Inr 0"
  by code_simp

section \<open>Subclass construction and the parent's instance cell\<close>

text \<open>
  Claim C1 (uniqueness): every construction call on a decorated type returns the
  same reference, also when calls on decorated subclasses come in between; the
  slot is populated once and never replaced.

  The program does not keep this. \<^verbatim>\<open>Parent()\<close> creates object 0 and stores it in
  \<^verbatim>\<open>Parent\<close>'s cell; \<^verbatim>\<open>Child()\<close> runs \<^verbatim>\<open>Parent\<close>'s \<^verbatim>\<open>__new__\<close> with
  \<^verbatim>\<open>cls = Child\<close>, where line 195 assigns the new object 1 to the same cell; the
  next \<^verbatim>\<open>Parent()\<close> finds the cell populated and returns object 1.
\<close>

theorem parent_reference_replaced:
  "fst (construct 0 [] family_state) = Inr 0 \<and>
   fst (construct 1 [] (snd (construct 0 [] family_state))) = Inr 1 \<and>
   fst (construct 0 [] (snd (construct 1 [] (snd (construct 0 [] family_state))))) = Inr 1"
  by code_simp

text \<open>
  Claim C2 (frame): a construction call arriving through a subclass that passes
  the subclass check creates and returns a new instance and leaves the parent's
  instance slot unchanged.

  The first half holds; the second does not. After \<^verbatim>\<open>Parent()\<close> the cell of
  \<^verbatim>\<open>Parent\<close> holds object 0. \<^verbatim>\<open>Child()\<close> passes the check, returns the new
  object 1 of type \<^verbatim>\<open>Child\<close>, and the cell of \<^verbatim>\<open>Parent\<close> (cell 0) holds object 1
  afterwards.
\<close>

theorem subclass_call_overwrites_parent_cell:
  "instance_cell (snd (construct 0 [] family_state)) 0 = Some 0 \<and>
   check_subclass subclassable 0 1 (snd (construct 0 [] family_state)) = Inr True \<and>
   fst (construct 1 [] (snd (construct 0 [] family_state))) = Inr 1 \<and>
   type_of (snd (construct 1 [] (snd (construct 0 [] family_state)))) 1 = 1 \<and>
   instance_cell (snd (construct 1 [] (snd (construct 0 [] family_state)))) 0 = Some 1"
  by code_simp

text \<open>
  Claim C3 (isolation of parent and child): with the parent decorated with
  \<^verbatim>\<open>allow_subclass=True\<close> and the subclass decorated on its own, constructing
  both, in either order, gives two distinct instances, each of its own type.

  In the order of the tests (parent first) this is what happens. In the other
  order \<^verbatim>\<open>Child()\<close> leaves its object 0 in the cell of \<^verbatim>\<open>Parent\<close> too, and
  \<^verbatim>\<open>Parent()\<close> returns that same object, whose type is \<^verbatim>\<open>Child\<close> (class 1).
\<close>

theorem child_first_shares_instance:
  "fst (construct 0 [] family_state) = Inr 0 \<and>
   fst (construct 1 [] (snd (construct 0 [] family_state))) = Inr 1 \<and>
   type_of (snd (construct 1 [] (snd (construct 0 [] family_state)))) 0 = 0 \<and>
   type_of (snd (construct 1 [] (snd (construct 0 [] family_state)))) 1 = 1 \<and>
   fst (construct 1 [] family_state) = Inr 0 \<and>
   fst (construct 0 [] (snd (construct 1 [] family_state))) = Inr 0 \<and>
   type_of (snd (construct 0 [] (snd (construct 1 [] family_state)))) 0 = 1"
  by code_simp

section \<open>Reassignment\<close>

text \<open>
  For a class that inherits no gate, the scenarios of the specification come out
  as described: after \<^verbatim>\<open>Counter(1)\<close> and \<^verbatim>\<open>Counter(2)\<close> both calls have returned
  object 0, and its \<^verbatim>\<open>value\<close> is 1 under the default options and 2 under
  \<^verbatim>\<open>allow_reassignment=True\<close>.
\<close>

lemma counter_scenarios:
  "fst (construct_seq 0 [[VInt 1], [VInt 2]] (counter_state default_config)) = [Inr 0, Inr 0] \<and>
   value_of (snd (construct_seq 0 [[VInt 1], [VInt 2]] (counter_state default_config))) 0 =
     Some (VInt 1) \<and>
   fst (construct_seq 0 [[VInt 1], [VInt 2]] (counter_state reassignable)) = [Inr 0, Inr 0] \<and>
   value_of (snd (construct_seq 0 [[VInt 1], [VInt 2]] (counter_state reassignable))) 0 =
     Some (VInt 2)"
  by code_simp

text \<open>
  A first call whose \<^verbatim>\<open>__init__\<close> raises has already stored the instance (line
  207) and leaves the gate open (line 216 is not reached): \<^verbatim>\<open>Counter()\<close> raises,
  and the following \<^verbatim>\<open>Counter(5)\<close> returns the stored object 0 and sets its
  \<^verbatim>\<open>value\<close> to 5.
\<close>

lemma counter_failed_first_call:
  "fst (construct 0 [] (counter_state default_config)) =
     Inl (TypeError ''__init__() missing 1 required positional argument: value'') \<and>
   instance_cell (snd (construct 0 [] (counter_state default_config))) 0 = Some 0 \<and>
   \<not> initialized_cell (snd (construct 0 [] (counter_state default_config))) 0 \<and>
   fst (construct_seq 0 [[], [VInt 5]] (counter_state default_config)) =
     [Inl (TypeError ''__init__() missing 1 required positional argument: value''), Inr 0] \<and>
   value_of (snd (construct_seq 0 [[], [VInt 5]] (counter_state default_config))) 0 =
     Some (VInt 5)"
  by code_simp

text \<open>
  Claim C4 (reassignment semantics): for every decorated type, with
  \<^verbatim>\<open>allow_reassignment=True\<close> each construction call re-runs the original
  initialisation on the existing instance with that call's arguments, so that
  the state is updated; with \<^verbatim>\<open>allow_reassignment=False\<close> the first call's
  arguments take effect and later calls change nothing.

  The program does not keep this for a decorated subclass of a decorated type.
  The \<^verbatim>\<open>__init__\<close> that \<^verbatim>\<open>Child\<close> inherits is the gate installed on \<^verbatim>\<open>Parent\<close>,
  whose flag belongs to the closure of \<^verbatim>\<open>Parent\<close> and is shared by the instances
  of both classes. With \<^verbatim>\<open>Child\<close> decorated by \<^verbatim>\<open>allow_reassignment=True\<close>,
  \<^verbatim>\<open>Child(2)\<close> sets \<^verbatim>\<open>value\<close> to 2 and closes that gate, and \<^verbatim>\<open>Child(5)\<close> returns
  the same object with \<^verbatim>\<open>value\<close> still 2. With \<^verbatim>\<open>Child\<close> decorated by the bare
  \<^verbatim>\<open>@singleton\<close>, after \<^verbatim>\<open>Parent(1)\<close> the first call \<^verbatim>\<open>Child(2)\<close> returns a new
  object 1 on which no initialiser has run: it has no \<^verbatim>\<open>value\<close> at all.
\<close>

theorem inherited_gate_blocks_initialisation:
  "resolve_init (heir_state reassignable) 1 = SingletonInit 0 (UserInit set_value) \<and>
   fst (construct_seq 1 [[VInt 2], [VInt 5]] (heir_state reassignable)) = [Inr 0, Inr 0] \<and>
   value_of (snd (construct_seq 1 [[VInt 2], [VInt 5]] (heir_state reassignable))) 0 =
     Some (VInt 2) \<and>
   fst (construct 0 [VInt 1] (heir_state default_config)) = Inr 0 \<and>
   value_of (snd (construct 0 [VInt 1] (heir_state default_config))) 0 = Some (VInt 1) \<and>
   fst (construct 1 [VInt 2] (snd (construct 0 [VInt 1] (heir_state default_config)))) = Inr 1 \<and>
   type_of (snd (construct 1 [VInt 2] (snd (construct 0 [VInt 1] (heir_state default_config)))))
     1 = 1 \<and>
   value_of (snd (construct 1 [VInt 2] (snd (construct 0 [VInt 1] (heir_state default_config)))))
     1 = None"
proof -
  have gate: "resolve_init (heir_state reassignable) 1 = SingletonInit 0 (UserInit set_value)"
    by (simp add: heir_state_def class_def_def decorator_def empty_state_def Let_def
        resolve_init_def resolve_new_def mro_def set_init_def set_new_def set_flag_def
        class_name_def subclassable_def reassignable_def)
  have calls: "fst (construct_seq 1 [[VInt 2], [VInt 5]] (heir_state reassignable)) = [Inr 0, Inr 0] \<and>
   value_of (snd (construct_seq 1 [[VInt 2], [VInt 5]] (heir_state reassignable))) 0 =
     Some (VInt 2) \<and>
   fst (construct 0 [VInt 1] (heir_state default_config)) = Inr 0 \<and>
   value_of (snd (construct 0 [VInt 1] (heir_state default_config))) 0 = Some (VInt 1) \<and>
   fst (construct 1 [VInt 2] (snd (construct 0 [VInt 1] (heir_state default_config)))) = Inr 1 \<and>
   type_of (snd (construct 1 [VInt 2] (snd (construct 0 [VInt 1] (heir_state default_config)))))
     1 = 1 \<and>
   value_of (snd (construct 1 [VInt 2] (snd (construct 0 [VInt 1] (heir_state default_config)))))
     1 = None"
    by code_simp
  show ?thesis using gate calls by simp
qed

section \<open>The subclass check\<close>






section \<open>Introspection and the name-based marker\<close>

text \<open>
  What \<^verbatim>\<open>is_singleton\<close> computes: false for a value that is not a class, false
  for a class on which no marker is found, and otherwise the comparison of the
  marker with the class's own name.
\<close>

lemma is_singleton_cases:
  "(\<not> is_type v \<longrightarrow> \<not> is_singleton_cls st v) \<and>
   (getattr_flag st c = None \<longrightarrow> \<not> is_singleton_cls st (VClass c)) \<and>
   (\<forall>flag. getattr_flag st c = Some flag \<longrightarrow>
            is_singleton_cls st (VClass c) = (flag = class_name st c))"
  by (cases v) (simp_all add: is_type_def is_singleton_cls_def)

text \<open>
  Claim C7 (introspection): \<^verbatim>\<open>is_singleton\<close> is false for a value that is not a
  type, false for a type without a registration record, and true exactly when
  the record's name equals the type's own name, so that it is false for a
  subclass that merely inherits a decorated ancestor's record.

  The program keeps the first three (value \<^verbatim>\<open>1\<close>, class \<^verbatim>\<open>Other\<close>, class \<^verbatim>\<open>Node\<close>)
  and answers false for the undecorated subclass \<^verbatim>\<open>Leaf\<close>. It does not keep the
  last for class 1: that subclass of \<^verbatim>\<open>Node\<close> was never decorated (it has no
  marker and no \<^verbatim>\<open>__new__\<close> of its own), it inherits the marker of class 0, and
  because it bears its parent's name line 261 answers true.
\<close>

theorem namesake_subclass_reported_singleton:
  "\<not> is_singleton_cls namesake_state (VInt 1) \<and>
   \<not> is_singleton_cls namesake_state (VClass 3) \<and>
   is_singleton_cls namesake_state (VClass 0) \<and>
   \<not> is_singleton_cls namesake_state (VClass 2) \<and>
   c_flag (classes namesake_state ! 1) = None \<and>
   c_new (classes namesake_state ! 1) = None \<and>
   getattr_flag namesake_state 1 = Some ''Node'' \<and>
   mro namesake_state 1 = [1, 0] \<and>
   is_singleton_cls namesake_state (VClass 1)"
  by code_simp

text \<open>
  Claim C10 (names, not identities): a class \<open>C\<close> that was never decorated (it
  has no marker of its own) and whose name equals the marker it inherits is
  reported a singleton, and the check of lines 173 to 177 passes for it in the
  closure of any decorated type: with \<^verbatim>\<open>allow_subclass=True\<close> \<^verbatim>\<open>_check_subclass\<close>
  returns \<^verbatim>\<open>True\<close>, and under no options does it raise the must-also-be-a-singleton
  error.
\<close>

theorem name_not_identity:
  assumes "c_flag (classes st ! C) = None"
    and "getattr_flag st C = Some (class_name st C)"
  shows "is_singleton_cls st (VClass C) \<and>
         (allow_subclass cfg \<longrightarrow> check_subclass cfg T C st = Inr True) \<and>
         check_subclass cfg T C st \<noteq>
           Inl (TypeError (''Subclass '' @ class_name st C @ '' must also be a singleton''))"
  using assms by (simp add: is_singleton_cls_def check_subclass_def)

theorem name_not_identity_witness:
  "c_flag (classes namesake_state ! 1) = None \<and>
   getattr_flag namesake_state 1 = Some (class_name namesake_state 1) \<and>
   is_singleton_cls namesake_state (VClass 1) \<and>
   check_subclass subclassable 0 1 namesake_state = Inr True \<and>
   fst (construct 1 [] namesake_state) = Inr 0"
proof -
  have a: "c_flag (classes namesake_state ! 1) = None" by code_simp
  have b: "getattr_flag namesake_state 1 = Some (class_name namesake_state 1)" by code_simp
  have c: "allow_subclass subclassable" by (simp add: subclassable_def)
  have d: "fst (construct 1 [] namesake_state) = Inr 0" by code_simp
  show ?thesis
    using a b c d name_not_identity [OF a b, of subclassable 0] by simp
qed

section \<open>Decorating something that is not a class\<close>

text \<open>
  Claim C8 (invalid target): applied to a value that is not a class, under any
  options, the decorator raises \<^verbatim>\<open>TypeError\<close> (line 218) and leaves the whole
  state as it was: nothing is installed and no marker is written.
\<close>

theorem decorator_rejects_non_class:
  "\<not> is_type v \<Longrightarrow>
     decorator cfg v st =
       (Inl (TypeError ''singleton decorator can only be applied to classes''), st)"
  by (cases v) (simp_all add: is_type_def decorator_def)

theorem decorator_rejects_non_class_witness:
  "\<not> is_type (VFun ''some_function'') \<and>
   decorator subclassable (VFun ''some_function'') sealed_state =
     (Inl (TypeError ''singleton decorator can only be applied to classes''), sealed_state)"
  using decorator_rejects_non_class [of "VFun ''some_function''" subclassable sealed_state]
  by (simp add: is_type_def)

end
